theory Spec2Isabelle
  imports Main
begin

unbundle bit_operations_syntax

section \<open>The JDWP packet processor of AndBug (andbug/process.py)\<close>

text \<open>
  The module is Python 2: a \<^verbatim>\<open>str\<close> is a sequence of bytes, modelled as
  \<^typ>\<open>string\<close> (a list of 8-bit characters). Python integers are unbounded and are
  modelled as \<^typ>\<open>int\<close>. Every exception the code can raise is a value of
  \<open>error\<close>; a method of \<^verbatim>\<open>Process\<close> takes the object's state and returns
  its outcome together with the state it leaves behind, since an exception does not undo
  the reads and writes done before it.
\<close>

subsection \<open>Exceptions\<close>

datatype error =
    HandshakeError
  | ProtocolError string
  | NameError string
  | AttributeError string
  | IndexError
  | BufferError

subsection \<open>Module constants\<close>

definition HANDSHAKE_MSG :: string where
  "HANDSHAKE_MSG = ''JDWP-Handshake''"

definition HEADER_FORMAT :: string where
  "HEADER_FORMAT = ''4412''"

definition IDSZ_REQ :: string where
  "IDSZ_REQ =
     [CHR 0x00, CHR 0x00, CHR 0x00, CHR 0x0B,
      CHR 0x00, CHR 0x00, CHR 0x00, CHR 0x01,
      CHR 0x00,
      CHR 0x01, CHR 0x07]"

text \<open>
  The names bound at module level when a function of the module runs: the two imports,
  the classes and the three constants. A global name that is not among them (and is no
  builtin) raises \<^verbatim>\<open>NameError\<close> when it is evaluated.
\<close>

definition module_globals :: "string list" where
  "module_globals =
     [''Thread'', ''JdwpBuffer'', ''HandshakeError'', ''ProtocolError'',
      ''HANDSHAKE_MSG'', ''HEADER_FORMAT'', ''IDSZ_REQ'', ''Process'',
      ''Element'', ''Content'', ''Response'', ''Failure'', ''Success'',
      ''Request'', ''Event'']"

definition lookup_global :: "string \<Rightarrow> error + string" where
  "lookup_global name =
     (if name \<in> set module_globals then Inr name else Inl (NameError name))"

text \<open>
  \<^verbatim>\<open>HandshakeError()\<close> runs the class's \<^verbatim>\<open>__init__\<close>, whose body is
  \<^verbatim>\<open>Error.__init__(self, '...')\<close>: the name \<^verbatim>\<open>Error\<close> is looked up first.
  The result is the exception that \<^verbatim>\<open>raise HandshakeError()\<close> propagates.
\<close>

definition raise_HandshakeError :: error where
  "raise_HandshakeError =
     (case lookup_global ''Error'' of
        Inl e \<Rightarrow> e
      | Inr _ \<Rightarrow> HandshakeError)"

subsection \<open>The wire codec (andbug.jdwp.JdwpBuffer)\<close>

text \<open>
  Modelled from the spec: the class \<^verbatim>\<open>JdwpBuffer\<close> of \<^verbatim>\<open>andbug.jdwp\<close> is
  imported by the module and is not among the sources. The spec gives its interface
  (\<^verbatim>\<open>pack(format, values...) -> bytes\<close>, \<^verbatim>\<open>unpack(format, bytes) -> values\<close>,
  \<^verbatim>\<open>configure(fieldWidths...)\<close>) and the layout of the fields the module uses:
  big-endian, \<^verbatim>\<open>int32 length | int32 id | uint8 flags | uint16 code\<close> for the header
  format and five 32-bit integers for the ID-size reply. A buffer holds the configured
  ID widths and the bytes packed into it so far.
\<close>

record JdwpBuffer =
  sizes :: "int list"
  buf :: string

text \<open>Modelled from the spec: a new buffer has no widths configured and no bytes packed.\<close>

definition JdwpBuffer_init :: JdwpBuffer where
  "JdwpBuffer_init = \<lparr>sizes = [], buf = []\<rparr>"

text \<open>Modelled from the spec: \<^verbatim>\<open>config(*sizes)\<close> stores the negotiated widths.\<close>

definition config :: "JdwpBuffer \<Rightarrow> int list \<Rightarrow> JdwpBuffer" where
  "config b szs = b\<lparr>sizes := szs\<rparr>"

text \<open>Modelled from the spec: \<^verbatim>\<open>preparePack()\<close> empties the buffer for a new body.\<close>

definition preparePack :: "JdwpBuffer \<Rightarrow> JdwpBuffer" where
  "preparePack b = b\<lparr>buf := []\<rparr>"

text \<open>Modelled from the spec: \<^verbatim>\<open>data()\<close> returns the bytes packed so far.\<close>

definition data :: "JdwpBuffer \<Rightarrow> string" where
  "data b = buf b"

text \<open>
  Modelled from the spec: the fixed-width type tags the module uses. \<^verbatim>\<open>'1'\<close> is a
  uint8, \<^verbatim>\<open>'2'\<close> a uint16, \<^verbatim>\<open>'4'\<close> an int32 and \<^verbatim>\<open>'i'\<close> a 32-bit integer.
  The tags of the negotiated-width ID fields are not used by the module and are not
  modelled: they are refused like any unknown tag.
\<close>

definition tag_width :: "char \<Rightarrow> nat option" where
  "tag_width t =
     (if t = CHR ''1'' then Some 1
      else if t = CHR ''2'' then Some 2
      else if t = CHR ''4'' then Some 4
      else if t = CHR ''i'' then Some 4
      else None)"

text \<open>Modelled from the spec: the two 32-bit tags are read as signed (int32) values.\<close>

definition tag_signed :: "char \<Rightarrow> bool" where
  "tag_signed t = (t = CHR ''4'' \<or> t = CHR ''i'')"

text \<open>Modelled from the spec: big-endian bytes to the unsigned value they denote.\<close>

definition be_decode :: "string \<Rightarrow> int" where
  "be_decode bs = foldl (\<lambda>acc c. acc * 256 + of_char c) 0 bs"

text \<open>
  Modelled from the spec: the \<open>w\<close> low-order bytes of a value, most significant first
  (two's complement for a negative value). The spec does not say what packing a value
  outside the field's range does; here the high-order bits are dropped.
\<close>

fun be_encode :: "nat \<Rightarrow> int \<Rightarrow> string" where
  "be_encode 0 v = []"
| "be_encode (Suc w) v = be_encode w (v div 256) @ [char_of v]"

text \<open>Modelled from the spec: the value of one field, read as its tag says.\<close>

definition decode_field :: "char \<Rightarrow> string \<Rightarrow> int" where
  "decode_field t bs =
     (let u = be_decode bs in
      if tag_signed t \<and> 2 ^ (8 * length bs - 1) \<le> u then u - 2 ^ (8 * length bs) else u)"

text \<open>
  Modelled from the spec: \<^verbatim>\<open>unpack(format, bytes)\<close> reads one value per tag, in
  order, and fails when the bytes run out before the format does.
\<close>

fun unpack :: "JdwpBuffer \<Rightarrow> string \<Rightarrow> string \<Rightarrow> error + int list" where
  "unpack b [] d = Inr []"
| "unpack b (t # ts) d =
     (case tag_width t of
        None \<Rightarrow> Inl BufferError
      | Some w \<Rightarrow>
          if length d < w then Inl BufferError
          else (case unpack b ts (drop w d) of
                  Inl e \<Rightarrow> Inl e
                | Inr vs \<Rightarrow> Inr (decode_field t (take w d) # vs)))"

text \<open>
  Modelled from the spec: \<^verbatim>\<open>pack(format, values...)\<close> writes one field per tag and
  value, in order, and fails when tags and values do not pair up.
\<close>

fun pack :: "JdwpBuffer \<Rightarrow> string \<Rightarrow> int list \<Rightarrow> error + string" where
  "pack b [] [] = Inr []"
| "pack b [] (v # vs) = Inl BufferError"
| "pack b (t # ts) [] = Inl BufferError"
| "pack b (t # ts) (v # vs) =
     (case tag_width t of
        None \<Rightarrow> Inl BufferError
      | Some w \<Rightarrow>
          (case pack b ts vs of
             Inl e \<Rightarrow> Inl e
           | Inr bs \<Rightarrow> Inr (be_encode w v @ bs)))"

subsection \<open>The content classes\<close>

text \<open>
  An instance of \<^verbatim>\<open>Content\<close> or of a subclass: the class attributes \<^verbatim>\<open>CODE\<close>
  and \<^verbatim>\<open>FLAGS\<close>, which a class may lack, and its \<^verbatim>\<open>packTo\<close> method, which
  packs the body into the buffer it is given.
\<close>

record Content =
  CODE :: "int option"
  FLAGS :: "int option"
  packTo :: "JdwpBuffer \<Rightarrow> JdwpBuffer"

text \<open>\<^verbatim>\<open>Element.packTo\<close> is \<^verbatim>\<open>pass\<close>; no class of the module overrides it.\<close>

definition Element_packTo :: "JdwpBuffer \<Rightarrow> JdwpBuffer" where
  "Element_packTo b = b"

definition Response :: Content where
  "Response = \<lparr>CODE = None, FLAGS = Some 0x80, packTo = Element_packTo\<rparr>"

definition Failure :: Content where
  "Failure = Response"

definition Success :: Content where
  "Success = Response\<lparr>CODE := Some 0x0000\<rparr>"

definition Request :: Content where
  "Request = \<lparr>CODE = None, FLAGS = Some 0x00, packTo = Element_packTo\<rparr>"

definition Event :: Content where
  "Event = Request"

text \<open>The properties \<^verbatim>\<open>code\<close> and \<^verbatim>\<open>flags\<close> read the class attribute.\<close>

definition code :: "Content \<Rightarrow> error + int" where
  "code c = (case CODE c of None \<Rightarrow> Inl (AttributeError ''CODE'') | Some v \<Rightarrow> Inr v)"

definition flags :: "Content \<Rightarrow> error + int" where
  "flags c = (case FLAGS c of None \<Rightarrow> Inl (AttributeError ''FLAGS'') | Some v \<Rightarrow> Inr v)"

subsection \<open>The processor\<close>

text \<open>
  The state of a \<^verbatim>\<open>Process\<close>: its two buffers, the flag \<^verbatim>\<open>initialized\<close> and the
  counter \<^verbatim>\<open>nextId\<close>. The two transport functions given to the constructor are a
  byte stream: \<open>inbound\<close> holds the bytes the peer has sent and \<^verbatim>\<open>read\<close> has not
  yet returned, \<open>outbound\<close> the argument of every call to \<^verbatim>\<open>write\<close>, oldest first.
  \<open>started\<close> is the state of the underlying \<^verbatim>\<open>Thread\<close>.
\<close>

record Process =
  xmitbuf :: JdwpBuffer
  recvbuf :: JdwpBuffer
  inbound :: string
  outbound :: "string list"
  initialized :: bool
  nextId :: int
  started :: bool

definition Process_init :: "string \<Rightarrow> Process" where
  "Process_init peer =
     \<lparr>xmitbuf = JdwpBuffer_init, recvbuf = JdwpBuffer_init,
      inbound = peer, outbound = [],
      initialized = False, nextId = 3, started = False\<rparr>"

text \<open>
  \<^verbatim>\<open>read(n)\<close> returns the next \<open>n\<close> bytes of the stream, or fewer when the stream
  ends before (a truncated message). \<^verbatim>\<open>write(bytes)\<close> (here \<open>write_bytes\<close>) sends the bytes.
\<close>

definition read :: "nat \<Rightarrow> Process \<Rightarrow> string \<times> Process" where
  "read n p = (take n (inbound p), p\<lparr>inbound := drop n (inbound p)\<rparr>)"

definition write_bytes :: "string \<Rightarrow> Process \<Rightarrow> Process" where
  "write_bytes bs p = p\<lparr>outbound := outbound p @ [bs]\<rparr>"

text \<open>Python's \<^verbatim>\<open>xs[i]\<close> for a non-negative index.\<close>

definition getitem :: "'a list \<Rightarrow> nat \<Rightarrow> error + 'a" where
  "getitem xs i = (if i < length xs then Inr (xs ! i) else Inl IndexError)"

subsubsection \<open>Initialization steps\<close>

definition writeIdSzReq :: "Process \<Rightarrow> Process" where
  "writeIdSzReq p = write_bytes IDSZ_REQ p"

definition readHeader :: "Process \<Rightarrow> (error + int list) \<times> Process" where
  "readHeader p =
     (case read 11 p of
        (head, p1) \<Rightarrow>
          (case unpack (recvbuf p1) HEADER_FORMAT head of
             Inl e \<Rightarrow> (Inl e, p1)
           | Inr [] \<Rightarrow> (Inl IndexError, p1)
           | Inr (x # xs) \<Rightarrow> (Inr ((x - 11) # xs), p1)))"

definition readIdSzRes :: "Process \<Rightarrow> (error + unit) \<times> Process" where
  "readIdSzRes p =
     (case readHeader p of
        (Inl e, p1) \<Rightarrow> (Inl e, p1)
      | (Inr head, p1) \<Rightarrow>
          (case getitem head 0 of
             Inl e \<Rightarrow> (Inl e, p1)
           | Inr h0 \<Rightarrow>
               if h0 \<noteq> 20 then
                 (Inl (ProtocolError ''expected size of an idsize response''), p1)
               else
                 (case getitem head 2 of
                    Inl e \<Rightarrow> (Inl e, p1)
                  | Inr h2 \<Rightarrow>
                      if h2 \<noteq> 0x80 then
                        (Inl (ProtocolError
                           ''expected first server message to be a response''), p1)
                      else
                        (case getitem head 1 of
                           Inl e \<Rightarrow> (Inl e, p1)
                         | Inr h1 \<Rightarrow>
                             if h1 \<noteq> 1 then
                               (Inl (ProtocolError
                                  ''expected first server message to be 1''), p1)
                             else
                               (case read 20 p1 of
                                  (body, p2) \<Rightarrow>
                                    (case unpack (recvbuf p2) ''iiiii'' body of
                                       Inl e \<Rightarrow> (Inl e, p2)
                                     | Inr szs \<Rightarrow>
                                         (Inr (),
                                          p2\<lparr>recvbuf := config (recvbuf p2) szs,
                                             xmitbuf := config (xmitbuf p2) szs\<rparr>)))))))"

definition readHandshake :: "Process \<Rightarrow> (error + unit) \<times> Process" where
  "readHandshake p =
     (case read (length HANDSHAKE_MSG) p of
        (d, p1) \<Rightarrow>
          if d \<noteq> HANDSHAKE_MSG then (Inl raise_HandshakeError, p1)
          else (Inr (), p1))"

definition writeHandshake :: "Process \<Rightarrow> Process" where
  "writeHandshake p = write_bytes HANDSHAKE_MSG p"

subsubsection \<open>Transmitting packets\<close>

definition writeHeader :: "int \<Rightarrow> int \<Rightarrow> int \<Rightarrow> Process \<Rightarrow> (error + int) \<times> Process" where
  "writeHeader sz flgs event p =
     (let ident = nextId p;
          p1 = p\<lparr>nextId := nextId p + 2\<rparr>;
          sz1 = sz + 11
      in case pack (xmitbuf p1) HEADER_FORMAT [sz1, ident, flgs, event] of
           Inl e \<Rightarrow> (Inl e, p1)
         | Inr d \<Rightarrow> (Inr ident, write_bytes d p1))"

definition writeContent :: "Content \<Rightarrow> Process \<Rightarrow> (error + unit) \<times> Process" where
  "writeContent content p =
     (case code content of
        Inl e \<Rightarrow> (Inl e, p)
      | Inr cd \<Rightarrow>
          (case flags content of
             Inl e \<Rightarrow> (Inl e, p)
           | Inr flgs \<Rightarrow>
               (let p1 = p\<lparr>xmitbuf := preparePack (xmitbuf p)\<rparr>;
                    p2 = p1\<lparr>xmitbuf := packTo content (xmitbuf p1)\<rparr>;
                    d = data (xmitbuf p2);
                    sz = int (length d)
                in case writeHeader sz flgs cd p2 of
                     (Inl e, p3) \<Rightarrow> (Inl e, p3)
                   | (Inr _, p3) \<Rightarrow> (Inr (), write_bytes d p3))))"

subsubsection \<open>Thread API\<close>

text \<open>\<^verbatim>\<open>run\<close> is \<^verbatim>\<open>pass\<close>: the loop it announces is a comment.\<close>

definition run :: "Process \<Rightarrow> Process" where
  "run p = p"

text \<open>\<^verbatim>\<open>Thread.start\<close> marks the thread started and has it execute \<^verbatim>\<open>run\<close>.\<close>

definition Thread_start :: "Process \<Rightarrow> Process" where
  "Thread_start p = run (p\<lparr>started := True\<rparr>)"

definition start :: "Process \<Rightarrow> (error + unit) \<times> Process" where
  "start p =
     (if \<not> initialized p then
        (let p1 = writeHandshake p in
         case readHandshake p1 of
           (Inl e, p2) \<Rightarrow> (Inl e, p2)
         | (Inr _, p2) \<Rightarrow>
             (let p3 = writeIdSzReq p2 in
              case readIdSzRes p3 of
                (Inl e, p4) \<Rightarrow> (Inl e, p4)
              | (Inr _, p4) \<Rightarrow> (Inr (), Thread_start (p4\<lparr>initialized := True\<rparr>))))
      else (Inr (), p))"

subsection \<open>Observations and concrete sessions\<close>

text \<open>Whether an outcome is a raised \<^verbatim>\<open>ProtocolError\<close>, whatever its message.\<close>

definition isProtocolError :: "error + 'a \<Rightarrow> bool" where
  "isProtocolError r = (case r of Inl (ProtocolError m) \<Rightarrow> True | _ \<Rightarrow> False)"

text \<open>
  What a well-behaved peer sends during \<^verbatim>\<open>start\<close>: the handshake echo, then the
  ID-size reply (length field 31, id 1, flags 0x80, code 0) with the five widths
  4, 8, 8, 8, 4.
\<close>

definition idsz_reply_header :: string where
  "idsz_reply_header =
     [CHR 0x00, CHR 0x00, CHR 0x00, CHR 0x1F,
      CHR 0x00, CHR 0x00, CHR 0x00, CHR 0x01,
      CHR 0x80,
      CHR 0x00, CHR 0x00]"

definition idsz_reply_body :: string where
  "idsz_reply_body =
     [CHR 0x00, CHR 0x00, CHR 0x00, CHR 0x04,
      CHR 0x00, CHR 0x00, CHR 0x00, CHR 0x08,
      CHR 0x00, CHR 0x00, CHR 0x00, CHR 0x08,
      CHR 0x00, CHR 0x00, CHR 0x00, CHR 0x08,
      CHR 0x00, CHR 0x00, CHR 0x00, CHR 0x04]"

definition good_peer :: string where
  "good_peer = ''JDWP-Handshake'' @ idsz_reply_header @ idsz_reply_body"

text \<open>A reply packet with an empty body for request id 3.\<close>

definition reply_id3 :: string where
  "reply_id3 =
     [CHR 0x00, CHR 0x00, CHR 0x00, CHR 0x0B,
      CHR 0x00, CHR 0x00, CHR 0x00, CHR 0x03,
      CHR 0x80,
      CHR 0x00, CHR 0x00]"

text \<open>ID-size reply headers (length field 31, id 1) whose flags byte is 0x00 and 0x81.\<close>

definition reply_flags00 :: string where
  "reply_flags00 =
     [CHR 0x00, CHR 0x00, CHR 0x00, CHR 0x1F,
      CHR 0x00, CHR 0x00, CHR 0x00, CHR 0x01,
      CHR 0x00,
      CHR 0x00, CHR 0x00]"

definition reply_flags81 :: string where
  "reply_flags81 =
     [CHR 0x00, CHR 0x00, CHR 0x00, CHR 0x1F,
      CHR 0x00, CHR 0x00, CHR 0x00, CHR 0x01,
      CHR 0x81,
      CHR 0x00, CHR 0x00]"

text \<open>
  A content class as a user of the module would write it: command set 15, command 1,
  with a body of four bytes.
\<close>

definition sample_request :: Content where
  "sample_request =
     \<lparr>CODE = Some 0x0F01, FLAGS = Some 0x00,
      packTo = (\<lambda>b. b\<lparr>buf := buf b @ [CHR 0x01, CHR 0x08, CHR 0x00, CHR 0x00]\<rparr>)\<rparr>"

text \<open>
  A run of outbound requests: \<^verbatim>\<open>writeHeader\<close> called once for each
  (size, flags, code), in order, with the identifiers it returned.
\<close>

fun writeHeaders :: "(int \<times> int \<times> int) list \<Rightarrow> Process \<Rightarrow> (error + int) list \<times> Process" where
  "writeHeaders [] p = ([], p)"
| "writeHeaders ((sz, flgs, event) # rs) p =
     (case writeHeader sz flgs event p of
        (r, p1) \<Rightarrow> (case writeHeaders rs p1 of (ids, p2) \<Rightarrow> (r # ids, p2)))"

text \<open>The id field of an emitted header, read with the header format as the receiver does.\<close>

definition embedded_id :: "string \<Rightarrow> error + int" where
  "embedded_id hdr =
     (case unpack JdwpBuffer_init HEADER_FORMAT hdr of
        Inl e \<Rightarrow> Inl e
      | Inr vs \<Rightarrow> getitem vs 1)"

section \<open>Properties of the codec model\<close>

lemma length_be_encode [simp]: "length (be_encode w v) = w"
  by (induction w arbitrary: v) simp_all

lemma be_decode_snoc: "be_decode (bs @ [c]) = be_decode bs * 256 + of_char c"
  by (simp add: be_decode_def)

lemma be_decode_be_encode: "be_decode (be_encode w v) = v mod 256 ^ w"
proof (induction w arbitrary: v)
  case 0
  show ?case by (simp add: be_decode_def)
next
  case (Suc w)
  have "be_decode (be_encode (Suc w) v) = (v div 256 mod 256 ^ w) * 256 + v mod 256"
    by (simp add: be_decode_snoc Suc)
  also have "\<dots> = v mod 256 ^ Suc w"
    using zmod_zmult2_eq [of "256 ^ w" v 256] by simp
  finally show ?case .
qed

lemma decode_unsigned:
  assumes "\<not> tag_signed t" "0 \<le> v" "v < 256 ^ w"
  shows "decode_field t (be_encode w v) = v"
  using assms by (simp add: decode_field_def be_decode_be_encode)

lemma decode_int32:
  assumes "tag_signed t" "- (2 ^ 31) \<le> v" "v < 2 ^ 31"
  shows "decode_field t (be_encode 4 v) = v"
proof (cases "0 \<le> v")
  case True
  with assms have "v mod 256 ^ 4 = v" by simp
  with assms True show ?thesis
    by (simp add: decode_field_def be_decode_be_encode)
next
  case False
  have "(v + 4294967296) mod 4294967296 = v mod 4294967296"
    by simp
  moreover from assms False have "(v + 4294967296) mod 4294967296 = v + 4294967296"
    by (intro mod_pos_pos_trivial) simp_all
  ultimately have "v mod 256 ^ 4 = v + 2 ^ 32"
    by simp
  with assms False show ?thesis
    by (simp add: decode_field_def be_decode_be_encode)
qed

lemma unpack_header:
  "unpack b HEADER_FORMAT d =
     (if length d < 11 then Inl BufferError
      else Inr [decode_field (CHR ''4'') (take 4 d),
                decode_field (CHR ''4'') (take 4 (drop 4 d)),
                decode_field (CHR ''1'') (take 1 (drop 8 d)),
                decode_field (CHR ''2'') (take 2 (drop 9 d))])"
  by (auto simp add: HEADER_FORMAT_def tag_width_def)

lemma pack_header:
  "pack b HEADER_FORMAT [a, i, f, c] =
     Inr (be_encode 4 a @ be_encode 4 i @ be_encode 1 f @ be_encode 2 c)"
  by (simp add: HEADER_FORMAT_def tag_width_def)

lemma unpack_not_ProtocolError: "unpack b fmt d \<noteq> Inl (ProtocolError m)"
  by (induction b fmt d rule: unpack.induct) (auto split: option.splits sum.splits)

lemma unpack_iiiii:
  "unpack b ''iiiii'' d =
     (if length d < 20 then Inl BufferError
      else Inr (map (\<lambda>k. decode_field (CHR ''i'') (take 4 (drop (4 * k) d))) [0, 1, 2, 3, 4]))"
  by (auto simp add: tag_width_def)

section \<open>Properties of the processor\<close>

lemma readHeader_eq:
  "readHeader p =
     (if length (inbound p) < 11 then (Inl BufferError, p\<lparr>inbound := drop 11 (inbound p)\<rparr>)
      else (Inr [decode_field (CHR ''4'') (take 4 (inbound p)) - 11,
                 decode_field (CHR ''4'') (take 4 (drop 4 (inbound p))),
                 decode_field (CHR ''1'') (take 1 (drop 8 (inbound p))),
                 decode_field (CHR ''2'') (take 2 (drop 9 (inbound p)))],
            p\<lparr>inbound := drop 11 (inbound p)\<rparr>))"
  by (simp add: readHeader_def read_def unpack_header min_def take_drop)

lemma start_initialized: "initialized p \<Longrightarrow> start p = (Inr (), p)"
  by (simp add: start_def)

lemma start_sets_initialized: "fst (start p) = Inr () \<Longrightarrow> initialized (snd (start p))"
  by (auto simp add: start_def Let_def Thread_start_def run_def
      split: prod.splits sum.splits if_splits)

lemma writeHeader_eq:
  "writeHeader sz flgs event p =
     (Inr (nextId p),
      p\<lparr>nextId := nextId p + 2,
        outbound := outbound p @
          [be_encode 4 (sz + 11) @ be_encode 4 (nextId p) @ be_encode 1 flgs @ be_encode 2 event]\<rparr>)"
  by (simp add: writeHeader_def Let_def pack_header write_bytes_def)

lemma embedded_id_header:
  assumes "- (2 ^ 31) \<le> i" "i < 2 ^ 31"
  shows "embedded_id (be_encode 4 a @ be_encode 4 i @ be_encode 1 f @ be_encode 2 c) = Inr i"
proof -
  have "decode_field (CHR ''4'') (be_encode 4 i) = i"
    using assms by (intro decode_int32) (simp_all add: tag_signed_def)
  then show ?thesis
    by (simp add: embedded_id_def unpack_header getitem_def del: be_encode.simps)
qed

lemma writeHeaders_ids:
  "fst (writeHeaders reqs p) = map (\<lambda>k. Inr (nextId p + 2 * int k)) [0..<length reqs]"
proof (induction reqs arbitrary: p)
  case Nil
  show ?case by simp
next
  case (Cons r rs)
  obtain sz flgs event where r: "r = (sz, flgs, event)"
    by (cases r)
  let ?p1 = "snd (writeHeader sz flgs event p)"
  have n1: "nextId ?p1 = nextId p + 2"
    by (simp add: writeHeader_eq)
  have "fst (writeHeaders (r # rs) p) = Inr (nextId p) # fst (writeHeaders rs ?p1)"
    by (simp add: r writeHeader_eq split: prod.splits)
  also have "\<dots> = Inr (nextId p) # map (\<lambda>k. Inr (nextId p + 2 + 2 * int k)) [0..<length rs]"
    by (simp add: Cons.IH n1)
  also have "\<dots> = map (\<lambda>k. Inr (nextId p + 2 * int k)) (0 # map Suc [0..<length rs])"
    by (simp add: comp_def algebra_simps)
  also have "0 # map Suc [0..<length rs] = [0..<length (r # rs)]"
    by (simp add: upt_conv_Cons map_Suc_upt del: upt_Suc)
  finally show ?case .
qed

lemma writeHeaders_outbound:
  "\<exists>hs. outbound (snd (writeHeaders reqs p)) = outbound p @ hs \<and> length hs = length reqs
        \<and> (- (2 ^ 31) \<le> nextId p \<and> nextId p + 2 * int (length reqs) < 2 ^ 31 + 2
             \<longrightarrow> map embedded_id hs = fst (writeHeaders reqs p))"
proof (induction reqs arbitrary: p)
  case Nil
  show ?case by simp
next
  case (Cons r rs)
  obtain sz flgs event where r: "r = (sz, flgs, event)"
    by (cases r)
  let ?h = "be_encode 4 (sz + 11) @ be_encode 4 (nextId p) @ be_encode 1 flgs @ be_encode 2 event"
  let ?p1 = "snd (writeHeader sz flgs event p)"
  have n1: "nextId ?p1 = nextId p + 2" and o1: "outbound ?p1 = outbound p @ [?h]"
    by (simp_all add: writeHeader_eq)
  from Cons.IH [of ?p1] obtain hs where
    hs: "outbound (snd (writeHeaders rs ?p1)) = outbound ?p1 @ hs" "length hs = length rs"
      "- (2 ^ 31) \<le> nextId ?p1 \<and> nextId ?p1 + 2 * int (length rs) < 2 ^ 31 + 2
         \<longrightarrow> map embedded_id hs = fst (writeHeaders rs ?p1)"
    by blast
  have f: "fst (writeHeaders (r # rs) p) = Inr (nextId p) # fst (writeHeaders rs ?p1)"
    and s: "snd (writeHeaders (r # rs) p) = snd (writeHeaders rs ?p1)"
    by (simp_all add: r writeHeader_eq split: prod.splits)
  have "outbound (snd (writeHeaders (r # rs) p)) = outbound p @ (?h # hs)"
    using hs(1) o1 s by simp
  moreover have "length (?h # hs) = length (r # rs)"
    using hs(2) by simp
  moreover have "map embedded_id (?h # hs) = fst (writeHeaders (r # rs) p)"
    if "- (2 ^ 31) \<le> nextId p \<and> nextId p + 2 * int (length (r # rs)) < 2 ^ 31 + 2"
  proof -
    from that have "embedded_id ?h = Inr (nextId p)"
      by (intro embedded_id_header) simp_all
    moreover from that hs(3) n1 have "map embedded_id hs = fst (writeHeaders rs ?p1)"
      by simp
    ultimately show ?thesis using f by simp
  qed
  ultimately show ?case by blast
qed

lemma start_nextId: "nextId (snd (start p)) = nextId p"
  by (auto simp add: start_def Let_def Thread_start_def run_def writeHandshake_def
        writeIdSzReq_def write_bytes_def readHandshake_def read_def readIdSzRes_def
        readHeader_def
      simp del: unpack.simps
      split: prod.splits sum.splits if_splits list.splits)

subsection \<open>The ID-size reply is validated\<close>

text \<open>
  C1 (as amended): \<^verbatim>\<open>readIdSzRes\<close> raises \<^verbatim>\<open>ProtocolError\<close> if and only if it
  has read a header whose body length differs from 20, or whose flags byte differs from
  0x80 (the code compares the whole byte, it does not test the reply bit), or whose id
  differs from 1. A header that cannot be unpacked and a body that cannot be unpacked
  raise other errors.
\<close>

theorem readIdSzRes_ProtocolError_iff:
  "isProtocolError (fst (readIdSzRes p)) \<longleftrightarrow>
     (\<exists>head. fst (readHeader p) = Inr head
        \<and> (head ! 0 \<noteq> 20 \<or> head ! 2 \<noteq> 0x80 \<or> head ! 1 \<noteq> 1))"
proof (cases "length (inbound p) < 11")
  case True
  then show ?thesis
    by (simp add: readIdSzRes_def readHeader_eq isProtocolError_def)
next
  case False
  then show ?thesis
    by (auto simp add: readIdSzRes_def readHeader_eq isProtocolError_def getitem_def read_def
          unpack_not_ProtocolError
        simp del: unpack.simps split: sum.splits error.splits)
qed

text \<open>At a reply whose flags byte is 0x00 the error is raised.\<close>

theorem readIdSzRes_ProtocolError_iff_witness:
  "fst (readHeader (Process_init reply_flags00)) = Inr [20, 1, 0x00, 0]
   \<and> isProtocolError (fst (readIdSzRes (Process_init reply_flags00)))"
proof -
  have h: "fst (readHeader (Process_init reply_flags00)) = Inr [20, 1, 0x00, 0]"
    by code_simp
  then have "\<exists>head. fst (readHeader (Process_init reply_flags00)) = Inr head
        \<and> (head ! 0 \<noteq> 20 \<or> head ! 2 \<noteq> 0x80 \<or> head ! 1 \<noteq> 1)"
    by simp
  with readIdSzRes_ProtocolError_iff [of "Process_init reply_flags00"] h
  show ?thesis by simp
qed

text \<open>
  The claim as stated fails: a reply with body length 20, id 1 and flags 0x81 has the
  reply bit set, and \<^verbatim>\<open>ProtocolError\<close> is raised all the same.
\<close>

theorem readIdSzRes_flag_bit_counterexample:
  "fst (readHeader (Process_init reply_flags81)) = Inr [20, 1, 0x81, 0]
   \<and> (0x81 :: int) AND 0x80 \<noteq> 0
   \<and> isProtocolError (fst (readIdSzRes (Process_init reply_flags81)))"
proof -
  have "fst (readHeader (Process_init reply_flags81)) = Inr [20, 1, 0x81, 0]"
    by code_simp
  moreover have "(0x81 :: int) AND 0x80 \<noteq> 0"
    by simp
  moreover have "isProtocolError (fst (readIdSzRes (Process_init reply_flags81)))"
    by code_simp
  ultimately show ?thesis by simp
qed

text \<open>
  C6: when the header read is that of a valid ID-size reply (length field 31, id 1, flags
  0x80) and the 20 bytes after it unpack as \<^verbatim>\<open>'iiiii'\<close>, \<^verbatim>\<open>readIdSzRes\<close>
  consumes exactly those 31 bytes, and configures \<^verbatim>\<open>recvbuf\<close> and \<^verbatim>\<open>xmitbuf\<close>
  with the five values unpacked, each the big-endian value of four of the bytes.
\<close>

theorem readIdSzRes_configures:
  assumes "length hdr = 11" and "unpack (recvbuf p) HEADER_FORMAT hdr = Inr [31, 1, 0x80, c]"
    and "length body = 20" and "unpack (recvbuf p) ''iiiii'' body = Inr ws"
  shows "readIdSzRes (p\<lparr>inbound := hdr @ body @ rest\<rparr>) =
           (Inr (), p\<lparr>inbound := rest,
                      recvbuf := config (recvbuf p) ws,
                      xmitbuf := config (xmitbuf p) ws\<rparr>)
         \<and> ws = map (\<lambda>k. decode_field (CHR ''i'') (take 4 (drop (4 * k) body))) [0, 1, 2, 3, 4]
         \<and> sizes (config (recvbuf p) ws) = ws
         \<and> sizes (config (xmitbuf p) ws) = ws"
proof -
  let ?p = "p\<lparr>inbound := hdr @ body @ rest\<rparr>"
  from assms(1,2) have rh: "readHeader ?p = (Inr [20, 1, 0x80, c], p\<lparr>inbound := body @ rest\<rparr>)"
    by (simp add: readHeader_def read_def del: unpack.simps)
  from assms(3,4) have rb:
    "unpack (recvbuf (p\<lparr>inbound := rest\<rparr>)) ''iiiii'' (take 20 (body @ rest)) = Inr ws"
    by (simp del: unpack.simps)
  from assms(3) have dr: "drop 20 (body @ rest) = rest"
    by simp
  have main: "readIdSzRes ?p =
           (Inr (), p\<lparr>inbound := rest,
                      recvbuf := config (recvbuf p) ws,
                      xmitbuf := config (xmitbuf p) ws\<rparr>)"
    using rb dr by (simp add: readIdSzRes_def rh getitem_def read_def del: unpack.simps)
  from assms(3,4) have "ws = map (\<lambda>k. decode_field (CHR ''i'') (take 4 (drop (4 * k) body))) [0, 1, 2, 3, 4]"
    by (simp add: unpack_iiiii del: unpack.simps)
  with main show ?thesis by (simp add: config_def)
qed

text \<open>The reply with widths 4, 8, 8, 8, 4 leaves both buffers configured with them.\<close>

theorem readIdSzRes_configures_witness:
  "readIdSzRes ((Process_init [])\<lparr>inbound := idsz_reply_header @ idsz_reply_body @ []\<rparr>) =
     (Inr (), (Process_init [])\<lparr>inbound := [],
                recvbuf := config (recvbuf (Process_init [])) [4, 8, 8, 8, 4],
                xmitbuf := config (xmitbuf (Process_init [])) [4, 8, 8, 8, 4]\<rparr>)
   \<and> sizes (recvbuf (snd (readIdSzRes (Process_init (idsz_reply_header @ idsz_reply_body)))))
       = [4, 8, 8, 8, 4]
   \<and> sizes (xmitbuf (snd (readIdSzRes (Process_init (idsz_reply_header @ idsz_reply_body)))))
       = [4, 8, 8, 8, 4]"
proof -
  have a: "length idsz_reply_header = 11"
    by (simp add: idsz_reply_header_def)
  have b: "unpack (recvbuf (Process_init [])) HEADER_FORMAT idsz_reply_header = Inr [31, 1, 0x80, 0]"
    by code_simp
  have c: "length idsz_reply_body = 20"
    by (simp add: idsz_reply_body_def)
  have d: "unpack (recvbuf (Process_init [])) ''iiiii'' idsz_reply_body = Inr [4, 8, 8, 8, 4]"
    by code_simp
  have e: "(Process_init [])\<lparr>inbound := idsz_reply_header @ idsz_reply_body @ []\<rparr>
             = Process_init (idsz_reply_header @ idsz_reply_body)"
    by (simp add: Process_init_def)
  from readIdSzRes_configures [OF a b c d, of "[]"] e show ?thesis
    by (simp add: config_def)
qed

subsection \<open>The handshake\<close>

text \<open>
  C2 (the code departs from it): \<^verbatim>\<open>readHandshake\<close> returns normally exactly when the
  14 bytes read equal the token; on any other input, shorter or different, the exception
  that leaves it is \<^verbatim>\<open>NameError\<close>, raised while \<^verbatim>\<open>HandshakeError()\<close> is being
  constructed, and not \<^verbatim>\<open>HandshakeError\<close>. A \<^verbatim>\<open>start\<close> whose handshake fails
  has written the token and nothing else.
\<close>

theorem readHandshake_raises_NameError:
  "fst (readHandshake p) =
     (if take (length HANDSHAKE_MSG) (inbound p) = HANDSHAKE_MSG then Inr ()
      else Inl (NameError ''Error''))
   \<and> start (Process_init ''JDWP-Handshakf'') =
       (Inl (NameError ''Error''), (Process_init [])\<lparr>outbound := [''JDWP-Handshake'']\<rparr>)"
proof -
  have "raise_HandshakeError = NameError ''Error''"
    by (simp add: raise_HandshakeError_def lookup_global_def module_globals_def)
  then have "fst (readHandshake p) =
     (if take (length HANDSHAKE_MSG) (inbound p) = HANDSHAKE_MSG then Inr ()
      else Inl (NameError ''Error''))"
    by (simp add: readHandshake_def read_def)
  moreover have "start (Process_init ''JDWP-Handshakf'') =
       (Inl (NameError ''Error''), (Process_init [])\<lparr>outbound := [''JDWP-Handshake'']\<rparr>)"
    by code_simp
  ultimately show ?thesis by simp
qed

subsection \<open>The reader loop\<close>

text \<open>
  C3 (the code departs from it): \<^verbatim>\<open>run\<close> returns at once and leaves the processor as
  it found it. After a successful \<^verbatim>\<open>start\<close>, a reply packet that the peer has sent
  stays unread in the stream.
\<close>

theorem run_reads_nothing:
  "run p = p
   \<and> fst (start (Process_init (good_peer @ reply_id3))) = Inr ()
   \<and> inbound (snd (start (Process_init (good_peer @ reply_id3)))) = reply_id3"
proof -
  have "fst (start (Process_init (good_peer @ reply_id3))) = Inr ()"
    by code_simp
  moreover have "inbound (snd (start (Process_init (good_peer @ reply_id3)))) = reply_id3"
    by code_simp
  ultimately show ?thesis by (simp add: run_def)
qed

subsection \<open>Headers\<close>

text \<open>
  C4: for a body length, an id, a flags byte and a code that fit their header fields,
  \<^verbatim>\<open>writeHeader\<close> emits the 11 bytes packed from (body length + 11, id, flags,
  code), so the length field on the wire holds the body length plus 11, and from those
  bytes \<^verbatim>\<open>readHeader\<close> returns the body length, the id, the flags and the code that
  went in: the 11 added before packing is subtracted after unpacking, and the other
  three fields come back unchanged.
\<close>

theorem header_roundtrip:
  assumes "- (2 ^ 31) \<le> sz + 11" and "sz + 11 < 2 ^ 31"
    and "- (2 ^ 31) \<le> nextId p" and "nextId p < 2 ^ 31"
    and "0 \<le> flgs" and "flgs < 256"
    and "0 \<le> event" and "event < 65536"
  shows "\<exists>hdr. writeHeader sz flgs event p =
                 (Inr (nextId p), p\<lparr>nextId := nextId p + 2, outbound := outbound p @ [hdr]\<rparr>)
               \<and> length hdr = 11
               \<and> pack (xmitbuf p) HEADER_FORMAT [sz + 11, nextId p, flgs, event] = Inr hdr
               \<and> unpack b HEADER_FORMAT hdr = Inr [sz + 11, nextId p, flgs, event]
               \<and> readHeader (q\<lparr>inbound := hdr @ rest\<rparr>)
                   = (Inr [sz, nextId p, flgs, event], q\<lparr>inbound := rest\<rparr>)"
proof -
  let ?hdr = "be_encode 4 (sz + 11) @ be_encode 4 (nextId p) @ be_encode 1 flgs @ be_encode 2 event"
  have w: "writeHeader sz flgs event p =
             (Inr (nextId p), p\<lparr>nextId := nextId p + 2, outbound := outbound p @ [?hdr]\<rparr>)"
    by (simp add: writeHeader_def Let_def pack_header write_bytes_def)
  have l: "length ?hdr = 11"
    by simp
  have pk: "pack (xmitbuf p) HEADER_FORMAT [sz + 11, nextId p, flgs, event] = Inr ?hdr"
    by (rule pack_header)
  have d0: "decode_field (CHR ''4'') (be_encode 4 (sz + 11)) = sz + 11"
    using assms by (intro decode_int32) (simp_all add: tag_signed_def)
  have d1: "decode_field (CHR ''4'') (be_encode 4 (nextId p)) = nextId p"
    using assms by (intro decode_int32) (simp_all add: tag_signed_def)
  have d2: "decode_field (CHR ''1'') (be_encode 1 flgs) = flgs"
    using assms by (intro decode_unsigned) (simp_all add: tag_signed_def)
  have d3: "decode_field (CHR ''2'') (be_encode 2 event) = event"
    using assms by (intro decode_unsigned) (simp_all add: tag_signed_def)
  have up: "unpack b HEADER_FORMAT ?hdr = Inr [sz + 11, nextId p, flgs, event]"
    by (simp add: unpack_header d0 d1 d2 [unfolded One_nat_def] d3 del: be_encode.simps)
  have rd: "readHeader (q\<lparr>inbound := ?hdr @ rest\<rparr>)
              = (Inr [sz, nextId p, flgs, event], q\<lparr>inbound := rest\<rparr>)"
    by (simp add: readHeader_eq d0 d1 d2 [unfolded One_nat_def] d3 del: be_encode.simps)
  from w l pk up rd show ?thesis by blast
qed

text \<open>
  On a new processor, the header written for a 4-byte body with flags 0x00 and code 0x0107
  carries length field 15 and id 3, and is read back as body length 4, id 3, flags 0 and
  code 0x0107.
\<close>

theorem header_roundtrip_witness:
  "unpack JdwpBuffer_init HEADER_FORMAT
       (last (outbound (snd (writeHeader 4 0x00 0x0107 (Process_init [])))))
     = Inr [15, 3, 0x00, 0x0107]
   \<and> fst (readHeader ((Process_init [])\<lparr>inbound :=
         last (outbound (snd (writeHeader 4 0x00 0x0107 (Process_init [])))) @ []\<rparr>))
       = Inr [4, 3, 0x00, 0x0107]"
proof -
  have n: "nextId (Process_init []) = 3"
    by (simp add: Process_init_def)
  have "\<exists>hdr. writeHeader 4 0x00 0x0107 (Process_init []) =
                 (Inr (nextId (Process_init [])),
                  (Process_init [])\<lparr>nextId := nextId (Process_init []) + 2,
                                     outbound := outbound (Process_init []) @ [hdr]\<rparr>)
               \<and> length hdr = 11
               \<and> pack (xmitbuf (Process_init [])) HEADER_FORMAT
                   [4 + 11, nextId (Process_init []), 0x00, 0x0107] = Inr hdr
               \<and> unpack JdwpBuffer_init HEADER_FORMAT hdr
                   = Inr [4 + 11, nextId (Process_init []), 0x00, 0x0107]
               \<and> readHeader ((Process_init [])\<lparr>inbound := hdr @ []\<rparr>)
                   = (Inr [4, nextId (Process_init []), 0x00, 0x0107],
                      (Process_init [])\<lparr>inbound := []\<rparr>)"
    by (rule header_roundtrip) (simp_all add: n)
  then obtain hdr where
    w: "writeHeader 4 0x00 0x0107 (Process_init []) =
          (Inr (nextId (Process_init [])),
           (Process_init [])\<lparr>nextId := nextId (Process_init []) + 2,
                              outbound := outbound (Process_init []) @ [hdr]\<rparr>)"
    and u: "unpack JdwpBuffer_init HEADER_FORMAT hdr
              = Inr [4 + 11, nextId (Process_init []), 0x00, 0x0107]"
    and r: "readHeader ((Process_init [])\<lparr>inbound := hdr @ []\<rparr>)
              = (Inr [4, nextId (Process_init []), 0x00, 0x0107],
                 (Process_init [])\<lparr>inbound := []\<rparr>)"
    by blast
  from w have "last (outbound (snd (writeHeader 4 0x00 0x0107 (Process_init [])))) = hdr"
    by simp
  with u r n show ?thesis by simp
qed

text \<open>
  C9 (as amended): the body length \<^verbatim>\<open>readHeader\<close> returns is the header's length
  field minus 11, whatever the field holds; it is non-negative exactly when the field is
  at least 11, which \<^verbatim>\<open>readHeader\<close> does not check.
\<close>

theorem readHeader_body_length:
  assumes "fst (readHeader p) = Inr head"
  shows "head ! 0 = decode_field (CHR ''4'') (take 4 (inbound p)) - 11
         \<and> (0 \<le> head ! 0 \<longleftrightarrow> 11 \<le> decode_field (CHR ''4'') (take 4 (inbound p)))"
  using assms by (auto simp add: readHeader_eq split: if_splits)

theorem readHeader_body_length_witness:
  "fst (readHeader (Process_init reply_flags00)) = Inr [20, 1, 0x00, 0]
   \<and> decode_field (CHR ''4'') (take 4 (inbound (Process_init reply_flags00))) = 31"
proof -
  have h: "fst (readHeader (Process_init reply_flags00)) = Inr [20, 1, 0x00, 0]"
    by code_simp
  from readHeader_body_length [OF h] h show ?thesis by simp
qed

text \<open>
  The claim as stated fails: a header whose length field is 0 is unpacked, and the body
  length returned for it is -11.
\<close>

theorem readHeader_negative_counterexample:
  "fst (readHeader (Process_init (replicate 11 (CHR 0x00)))) = Inr [- 11, 0, 0, 0]
   \<and> \<not> 0 \<le> [- 11, 0, 0, 0 :: int] ! 0"
proof -
  have "fst (readHeader (Process_init (replicate 11 (CHR 0x00)))) = Inr [- 11, 0, 0, 0]"
    by code_simp
  then show ?thesis by simp
qed

subsection \<open>Outbound requests\<close>

text \<open>
  C5: a new processor has \<^verbatim>\<open>nextId\<close> 3 and negotiation leaves it there. The
  requests written after it receive 3, 5, 7, ... in order: request number k (from 0)
  receives 3 + 2k, so the identifiers are distinct and are exactly those values. Each
  call emits one header, and as long as the identifiers fit the 32-bit id field, the id
  read back from each header is the one \<^verbatim>\<open>writeHeader\<close> returned for it.
\<close>

theorem id_assignment:
  assumes "start (Process_init peer) = (Inr (), p0)"
  shows "nextId (Process_init peer) = 3
    \<and> fst (writeHeaders reqs p0) = map (\<lambda>k. Inr (3 + 2 * int k)) [0..<length reqs]
    \<and> distinct (fst (writeHeaders reqs p0))
    \<and> set (fst (writeHeaders reqs p0)) = (\<lambda>k. Inr (3 + 2 * int k)) ` {0..<length reqs}
    \<and> (\<exists>hs. outbound (snd (writeHeaders reqs p0)) = outbound p0 @ hs
             \<and> length hs = length reqs
             \<and> (3 + 2 * int (length reqs) < 2 ^ 31 + 2
                  \<longrightarrow> map embedded_id hs = fst (writeHeaders reqs p0)))"
proof -
  have seed: "nextId (Process_init peer) = 3"
    by (simp add: Process_init_def)
  from assms have "p0 = snd (start (Process_init peer))"
    by simp
  then have n0: "nextId p0 = 3"
    by (simp add: start_nextId seed)
  have ids: "fst (writeHeaders reqs p0) = map (\<lambda>k. Inr (3 + 2 * int k)) [0..<length reqs]"
    by (simp add: writeHeaders_ids n0)
  have "inj_on (\<lambda>k. (Inr (3 + 2 * int k) :: error + int)) (set [0..<length reqs])"
    by (rule inj_onI) simp
  then have dist: "distinct (fst (writeHeaders reqs p0))"
    by (simp add: ids distinct_map)
  have st: "set (fst (writeHeaders reqs p0)) = (\<lambda>k. Inr (3 + 2 * int k)) ` {0..<length reqs}"
    by (simp add: ids)
  from writeHeaders_outbound [of reqs p0] n0
  have "\<exists>hs. outbound (snd (writeHeaders reqs p0)) = outbound p0 @ hs
             \<and> length hs = length reqs
             \<and> (3 + 2 * int (length reqs) < 2 ^ 31 + 2
                  \<longrightarrow> map embedded_id hs = fst (writeHeaders reqs p0))"
    by simp
  with seed ids dist st show ?thesis by simp
qed

text \<open>Two requests after a successful start receive 3 and 5, and carry them.\<close>

theorem id_assignment_witness:
  "fst (start (Process_init good_peer)) = Inr ()
   \<and> fst (writeHeaders [(0, 0x00, 0x0101), (4, 0x00, 0x0F01)] (snd (start (Process_init good_peer))))
       = [Inr 3, Inr 5]
   \<and> map embedded_id (drop 2 (outbound (snd (writeHeaders [(0, 0x00, 0x0101), (4, 0x00, 0x0F01)]
         (snd (start (Process_init good_peer))))))) = [Inr 3, Inr 5]"
proof -
  let ?p0 = "snd (start (Process_init good_peer))"
  let ?reqs = "[(0, 0x00, 0x0101), (4, 0x00, 0x0F01)] :: (int \<times> int \<times> int) list"
  have h: "fst (start (Process_init good_peer)) = Inr ()"
    by code_simp
  then have h': "start (Process_init good_peer) = (Inr (), ?p0)"
    by (simp add: prod_eq_iff)
  have o: "length (outbound ?p0) = 2"
    by code_simp
  from id_assignment [OF h', of ?reqs] obtain hs where
    ids: "fst (writeHeaders ?reqs ?p0) = map (\<lambda>k. Inr (3 + 2 * int k)) [0..<length ?reqs]"
    and out: "outbound (snd (writeHeaders ?reqs ?p0)) = outbound ?p0 @ hs"
    and emb: "3 + 2 * int (length ?reqs) < 2 ^ 31 + 2
                \<longrightarrow> map embedded_id hs = fst (writeHeaders ?reqs ?p0)"
    by blast
  have two: "[0..<length ?reqs] = [0, 1]"
    by (simp add: upt_conv_Cons)
  from ids two have ids': "fst (writeHeaders ?reqs ?p0) = [Inr 3, Inr 5]"
    by simp
  from emb have "map embedded_id hs = fst (writeHeaders ?reqs ?p0)"
    by simp
  with out o ids' have "map embedded_id (drop 2 (outbound (snd (writeHeaders ?reqs ?p0)))) = [Inr 3, Inr 5]"
    by simp
  with h ids' show ?thesis by simp
qed

text \<open>
  C8: for a content that defines its code and flags, \<^verbatim>\<open>writeContent\<close> packs the body
  into the emptied transmit buffer, then makes two writes and no other: first the 11-byte
  header packed from (body length + 11, the next id, the flags, the code), then the body.
\<close>

theorem writeContent_header_then_body:
  assumes "CODE c = Some cd" and "FLAGS c = Some fl"
  shows "\<exists>hdr. pack (packTo c (preparePack (xmitbuf p))) HEADER_FORMAT
                 [int (length (data (packTo c (preparePack (xmitbuf p))))) + 11,
                  nextId p, fl, cd] = Inr hdr
               \<and> length hdr = 11
               \<and> writeContent c p =
                   (Inr (), p\<lparr>xmitbuf := packTo c (preparePack (xmitbuf p)),
                              nextId := nextId p + 2,
                              outbound := outbound p
                                @ [hdr, data (packTo c (preparePack (xmitbuf p)))]\<rparr>)"
proof -
  let ?body = "data (packTo c (preparePack (xmitbuf p)))"
  let ?hdr = "be_encode 4 (int (length ?body) + 11) @ be_encode 4 (nextId p)
                @ be_encode 1 fl @ be_encode 2 cd"
  have "pack (packTo c (preparePack (xmitbuf p))) HEADER_FORMAT
          [int (length ?body) + 11, nextId p, fl, cd] = Inr ?hdr"
    by (rule pack_header)
  moreover have "length ?hdr = 11"
    by simp
  moreover have "writeContent c p =
                   (Inr (), p\<lparr>xmitbuf := packTo c (preparePack (xmitbuf p)),
                              nextId := nextId p + 2,
                              outbound := outbound p @ [?hdr, ?body]\<rparr>)"
    using assms
    by (simp add: writeContent_def code_def flags_def Let_def writeHeader_eq write_bytes_def
          del: be_encode.simps)
  ultimately show ?thesis by blast
qed

text \<open>A request with a four-byte body: the header (length field 15, id 3) precedes it.\<close>

theorem writeContent_header_then_body_witness:
  "writeContent sample_request (Process_init []) =
     (Inr (), (Process_init [])
        \<lparr>xmitbuf := \<lparr>sizes = [], buf = [CHR 0x01, CHR 0x08, CHR 0x00, CHR 0x00]\<rparr>,
         nextId := 5,
         outbound :=
           [[CHR 0x00, CHR 0x00, CHR 0x00, CHR 0x0F,
             CHR 0x00, CHR 0x00, CHR 0x00, CHR 0x03,
             CHR 0x00,
             CHR 0x0F, CHR 0x01],
            [CHR 0x01, CHR 0x08, CHR 0x00, CHR 0x00]]\<rparr>)"
proof -
  have a: "CODE sample_request = Some 0x0F01" and b: "FLAGS sample_request = Some 0x00"
    by (simp_all add: sample_request_def)
  from writeContent_header_then_body [OF a b, of "Process_init []"]
  obtain hdr where
    p: "pack (packTo sample_request (preparePack (xmitbuf (Process_init [])))) HEADER_FORMAT
          [int (length (data (packTo sample_request (preparePack (xmitbuf (Process_init []))))))
             + 11, nextId (Process_init []), 0x00, 0x0F01] = Inr hdr"
    and w: "writeContent sample_request (Process_init []) =
              (Inr (), (Process_init [])
                 \<lparr>xmitbuf := packTo sample_request (preparePack (xmitbuf (Process_init []))),
                  nextId := nextId (Process_init []) + 2,
                  outbound := outbound (Process_init [])
                     @ [hdr, data (packTo sample_request (preparePack (xmitbuf (Process_init []))))]\<rparr>)"
    by blast
  have "pack (packTo sample_request (preparePack (xmitbuf (Process_init [])))) HEADER_FORMAT
          [int (length (data (packTo sample_request (preparePack (xmitbuf (Process_init []))))))
             + 11, nextId (Process_init []), 0x00, 0x0F01]
        = Inr [CHR 0x00, CHR 0x00, CHR 0x00, CHR 0x0F,
               CHR 0x00, CHR 0x00, CHR 0x00, CHR 0x03,
               CHR 0x00,
               CHR 0x0F, CHR 0x01]"
    by code_simp
  with p have "hdr = [CHR 0x00, CHR 0x00, CHR 0x00, CHR 0x0F,
               CHR 0x00, CHR 0x00, CHR 0x00, CHR 0x03,
               CHR 0x00,
               CHR 0x0F, CHR 0x01]"
    by simp
  with w show ?thesis
    by (simp add: sample_request_def preparePack_def data_def Process_init_def JdwpBuffer_init_def)
qed

subsection \<open>The bootstrap request\<close>

text \<open>
  C7: \<^verbatim>\<open>writeIdSzReq\<close> writes the literal \<^verbatim>\<open>IDSZ_REQ\<close> in one call: 11 bytes
  whose length field is 11 (so the body is empty), id 1, flags 0x00, command set 1 and
  command 7. It neither reads nor advances \<^verbatim>\<open>nextId\<close>, which is still 3 on a new
  processor afterwards.
\<close>

theorem writeIdSzReq_fixed_packet:
  "writeIdSzReq p = p\<lparr>outbound := outbound p @ [IDSZ_REQ]\<rparr>
   \<and> map of_char IDSZ_REQ = [0, 0, 0, 11, 0, 0, 0, 1, 0, 1, 7 :: nat]
   \<and> unpack b HEADER_FORMAT IDSZ_REQ = Inr [11, 1, 0x00, 0x0107]
   \<and> nextId (writeIdSzReq p) = nextId p
   \<and> nextId (writeIdSzReq (Process_init peer)) = 3"
proof -
  have "writeIdSzReq p = p\<lparr>outbound := outbound p @ [IDSZ_REQ]\<rparr>"
    by (simp add: writeIdSzReq_def write_bytes_def)
  moreover have "map of_char IDSZ_REQ = [0, 0, 0, 11, 0, 0, 0, 1, 0, 1, 7 :: nat]"
    by (simp add: IDSZ_REQ_def)
  moreover have "unpack b HEADER_FORMAT IDSZ_REQ = Inr [11, 1, 0x00, 0x0107]"
    by (simp add: unpack_header IDSZ_REQ_def decode_field_def be_decode_def tag_signed_def)
  moreover have "nextId (writeIdSzReq p) = nextId p" for p
    by (simp add: writeIdSzReq_def write_bytes_def)
  moreover have "nextId (Process_init peer) = 3"
    by (simp add: Process_init_def)
  ultimately show ?thesis by simp
qed

subsection \<open>Starting twice\<close>

text \<open>
  C10: a call of \<^verbatim>\<open>start\<close> that completes leaves \<^verbatim>\<open>initialized\<close> set, and every
  later call, however many came before it, returns \<^verbatim>\<open>None\<close> and leaves the whole
  state, the transport included, as the first call left it.
\<close>

theorem start_idempotent:
  assumes "fst (start p0) = Inr ()"
  shows "initialized (snd (start p0))
         \<and> (\<forall>n. start (((snd \<circ> start) ^^ n) (snd (start p0))) = (Inr (), snd (start p0)))"
proof -
  let ?p = "snd (start p0)"
  have init: "initialized ?p"
    using assms by (rule start_sets_initialized)
  have "((snd \<circ> start) ^^ n) ?p = ?p" for n
    by (induction n) (simp_all add: start_initialized [OF init])
  with init show ?thesis
    by (simp add: start_initialized)
qed

theorem start_idempotent_witness:
  "fst (start (Process_init good_peer)) = Inr ()
   \<and> initialized (snd (start (Process_init good_peer)))
   \<and> start (snd (start (Process_init good_peer))) = (Inr (), snd (start (Process_init good_peer)))"
proof -
  have h: "fst (start (Process_init good_peer)) = Inr ()"
    by code_simp
  from start_idempotent [OF h] have
    "initialized (snd (start (Process_init good_peer)))"
    "start (((snd \<circ> start) ^^ 0) (snd (start (Process_init good_peer))))
       = (Inr (), snd (start (Process_init good_peer)))"
    by blast+
  with h show ?thesis by simp
qed

end
